theory Spec2Isabelle
  imports Complex_Main
begin

section \<open>Python string operations used by the gateway\<close>

text \<open>
  Python strings are modelled as \<^typ>\<open>string\<close>; one \<^typ>\<open>char\<close> stands for one code point
  below 256. \<open>s.lstrip(chars)\<close> and \<open>s.rstrip(chars)\<close> treat their argument as a
  set of characters and remove the longest leading (trailing) run drawn from that set.
  \<open>s.strip()\<close> without an argument removes whitespace on both sides, that is the
  characters for which \<open>str.isspace\<close> holds.
\<close>

definition py_lstrip :: "string \<Rightarrow> string \<Rightarrow> string" where
  "py_lstrip chars s = dropWhile (\<lambda>c. c \<in> set chars) s"

definition py_rstrip :: "string \<Rightarrow> string \<Rightarrow> string" where
  "py_rstrip chars s = rev (dropWhile (\<lambda>c. c \<in> set chars) (rev s))"

definition py_whitespace :: string where
  "py_whitespace =
     [CHR 0x09, CHR 0x0A, CHR 0x0B, CHR 0x0C, CHR 0x0D, CHR 0x1C, CHR 0x1D, CHR 0x1E,
      CHR 0x1F, CHR 0x20, CHR 0x85, CHR 0xA0]"

definition py_strip :: "string \<Rightarrow> string" where
  "py_strip s = py_rstrip py_whitespace (py_lstrip py_whitespace s)"

section \<open>Prompt rendering: \<open>get_prompt\<close>\<close>

text \<open>
  A turn of the history is a (query, response) pair. The history argument defaults to
  \<open>None\<close>; \<open>not history\<close> holds for \<open>None\<close> and for the empty list. The loop
  \<open>for old_query, response in history: prompt += ...\<close> is a left fold over the history
  with the prompt built so far as accumulator.
\<close>

type_synonym turn = "string \<times> string"

definition get_prompt :: "string \<Rightarrow> turn list option \<Rightarrow> string" where
  "get_prompt query history =
     (if history = None \<or> history = Some [] then
        ''\<newline>\<newline>### Instruction:\<newline>'' @ query @ ''\<newline>\<newline>### Response:\<newline>''
      else
        foldl (\<lambda>prompt (old_query, response).
                 prompt @ ''\<newline>\<newline>### Instruction:\<newline>'' @ old_query
                        @ ''\<newline>\<newline>### Response:\<newline>'' @ response)
              [] (the history)
        @ ''\<newline>\<newline>### Instruction:\<newline>'' @ query @ ''\<newline>\<newline>### Response:\<newline>'')"

text \<open>
  The specification's notion of an instruction/response block: the instruction header,
  the instruction text, the response header and the response text (empty for the slot
  the model is to fill).
\<close>

definition render_block :: "turn \<Rightarrow> string" where
  "render_block b =
     ''\<newline>\<newline>### Instruction:\<newline>'' @ fst b @ ''\<newline>\<newline>### Response:\<newline>'' @ snd b"

section \<open>Process-wide state and the model capability\<close>

text \<open>
  \<open>generation_kwargs\<close> is a module-level dictionary. The keys the handlers read and
  write are fields here, \<open>None\<close> standing for an absent key: the three sampling
  parameters, the tokenizer output stored by \<open>generation_kwargs[k] = v.to(DEVICE)\<close>
  (the tokenized text with its truncation bound, if any) and the \<open>streamer\<close> entry.
\<close>

type_synonym tokenizer_input = "string \<times> int option"

record gen_kwargs =
  max_length :: "int option"
  top_p :: "real option"
  temperature :: "real option"
  kw_inputs :: "tokenizer_input option"
  kw_streamer :: bool

text \<open>
  The model and the tokenizer are external. \<open>generate\<close> maps the keyword arguments of one
  \<open>model.generate\<close> call to the newly generated token ids (the slice
  \<open>output[0][inputs["input_ids"].shape[1]:]\<close>); \<open>stream_text\<close> gives the text
  fragments a \<open>TextIteratorStreamer\<close> yields for such a call.
\<close>

record llm =
  generate :: "gen_kwargs \<Rightarrow> nat list"
  stream_text :: "gen_kwargs \<Rightarrow> string list"
  decode :: "nat \<Rightarrow> string"
  eos_token_id :: nat

text \<open>
  The state shared by all requests: the dictionary, \<open>tokenizer.model_max_length\<close>, and
  the record of the calls made to \<open>model.generate\<close> so far (with their keyword
  arguments), which makes the effect of starting a generation observable.
\<close>

record server_state =
  generation_kwargs :: gen_kwargs
  model_max_length :: "int option"
  generate_calls :: "gen_kwargs list"

datatype py_error = IndexError | TypeError | NameError | HTTPException int string

section \<open>The \<open>/chat\<close> and \<open>/stream_chat\<close> endpoints\<close>

text \<open>
  The JSON body of both endpoints. An optional key is \<open>None\<close> when the body does not
  carry it; \<open>prompt\<close> is taken to be present and a string.
\<close>

record chat_request =
  prompt :: string
  history :: "turn list option"
  max_input_length :: "int option"
  max_generate_length :: "int option"
  post_top_p :: "real option"
  post_temperature :: "real option"

text \<open>
  Lines 95 to 108 of \<open>create_item\<close> and, word for word, lines 150 to 163 of
  \<open>stream_chat\<close>: each parameter is \<open>json.get(key, generation_kwargs.get(key, fallback))\<close>
  and is stored back into the dictionary; then the tokenizer's window is set to the
  resolved length when it is unset or greater than it.
\<close>

definition dict_get :: "'a option \<Rightarrow> 'a \<Rightarrow> 'a" where
  "dict_get entry dflt = (case entry of Some v \<Rightarrow> v | None \<Rightarrow> dflt)"

definition resolve_parameters :: "chat_request \<Rightarrow> server_state \<Rightarrow> server_state" where
  "resolve_parameters req st =
     (let gk = generation_kwargs st;
          ml = dict_get (max_generate_length req) (dict_get (max_length gk) 1024);
          gk = gk\<lparr>max_length := Some ml\<rparr>;
          gk = gk\<lparr>top_p := Some (dict_get (post_top_p req) (dict_get (top_p gk) 0.95))\<rparr>;
          gk = gk\<lparr>temperature :=
                    Some (dict_get (post_temperature req) (dict_get (temperature gk) 0.8))\<rparr>;
          window = (case model_max_length st of
                      None \<Rightarrow> Some ml
                    | Some w \<Rightarrow> if w > ml then Some ml else Some w)
      in st\<lparr>generation_kwargs := gk, model_max_length := window\<rparr>)"

text \<open>
  The decoding loop shared by \<open>create_item\<close> and \<open>create_chat_completion\<close>: every
  generated token other than the end-of-sequence token is decoded and appended.
\<close>

definition decode_response :: "llm \<Rightarrow> nat list \<Rightarrow> string" where
  "decode_response m output =
     foldl (\<lambda>response tok_id.
              if tok_id \<noteq> eos_token_id m then response @ decode m tok_id else response)
           [] output"

definition postprocess :: "string \<Rightarrow> string" where
  "postprocess response =
     py_rstrip ''\<newline>### Response:'' (py_lstrip ''\<newline>'' response)"

record chat_answer =
  response :: string
  answer_history :: "turn list"
  status :: int

text \<open>
  \<open>create_item\<close>. \<open>model.generate(**inputs, **generation_kwargs)\<close> raises a
  \<open>TypeError\<close> when the dictionary already holds the tokenizer's keys (an earlier
  streaming or OpenAI-style request stored them there). \<open>history += ...\<close> raises a
  \<open>TypeError\<close> when the history is \<open>None\<close>. The \<open>time\<close> field of the answer is
  the wall clock and is left out.
\<close>

definition create_item ::
  "llm \<Rightarrow> chat_request \<Rightarrow> server_state \<Rightarrow> (py_error + chat_answer) \<times> server_state" where
  "create_item m req st =
     (let st = resolve_parameters req st;
          prompt = py_lstrip ''\<newline>'' (prompt req);
          query = py_strip (get_prompt prompt (history req));
          inputs = (query, Some (dict_get (max_input_length req) 512))
      in if kw_inputs (generation_kwargs st) \<noteq> None then (Inl TypeError, st)
         else
           let call = (generation_kwargs st)\<lparr>kw_inputs := Some inputs\<rparr>;
               output = generate m call;
               st = st\<lparr>generate_calls := generate_calls st @ [call]\<rparr>;
               response = postprocess (decode_response m output)
           in case history req of
                None \<Rightarrow> (Inl TypeError, st)
              | Some h \<Rightarrow>
                  (Inr \<lparr>response = response, answer_history = h @ [(prompt, response)],
                        status = 200\<rparr>, st))"

text \<open>
  The events of \<open>/stream_chat\<close>. The \<open>data\<close> field is the JSON text of a dictionary
  with the keys \<open>response\<close>, \<open>history\<close> and \<open>finish\<close>; it is kept structured.
\<close>

record sse_event =
  event :: string
  event_id :: string
  retry :: nat
  data_response :: string
  data_history :: "turn list"
  data_finish :: bool

text \<open>
  The loop of \<open>event_generator\<close> over the streamer's fragments. \<open>disc k\<close> is the answer
  of the \<open>k\<close>-th call of \<open>request.is_disconnected()\<close>, made once per fragment. The
  result is the list of events yielded inside the loop and either the exception that
  ended it (\<open>history + [...]\<close> with \<open>history\<close> being \<open>None\<close>) or the values of
  \<open>last_msg\<close> and \<open>new_text\<close> at its exit (\<open>new_text\<close> is unbound when the loop
  body never ran).
\<close>

fun event_loop ::
  "(nat \<Rightarrow> bool) \<Rightarrow> string \<Rightarrow> turn list option \<Rightarrow> string list \<Rightarrow> nat \<Rightarrow> string
   \<Rightarrow> string option \<Rightarrow> sse_event list \<times> (py_error + string \<times> string option)" where
  "event_loop disc prm hist [] k last_msg new_text = ([], Inr (last_msg, new_text))"
| "event_loop disc prm hist (t # ts) k last_msg new_text =
     (if disc k then ([], Inr (last_msg, Some t))
      else case hist of
             None \<Rightarrow> ([], Inl TypeError)
           | Some h \<Rightarrow>
               (let ev = \<lparr>event = ''new_message'', event_id = ''message_id'', retry = 15000,
                          data_response = t, data_history = h @ [(prm, last_msg)],
                          data_finish = False\<rparr>;
                    (evs, r) = event_loop disc prm hist ts (Suc k) (last_msg @ t) (Some t)
                in (ev # evs, r)))"

text \<open>
  \<open>event_generator\<close>, run to its end: the prompt is rendered, the tokenizer output and
  the streamer are stored in the dictionary, the generation thread is started, the loop
  runs, and after the loop (also after its \<open>break\<close>) the \<open>finish\<close> event is
  yielded. Reading \<open>new_text\<close> there raises a \<open>NameError\<close> when it is unbound.
\<close>

definition event_generator ::
  "llm \<Rightarrow> (nat \<Rightarrow> bool) \<Rightarrow> chat_request \<Rightarrow> server_state
   \<Rightarrow> (sse_event list \<times> py_error option) \<times> server_state" where
  "event_generator m disc req st =
     (let query = get_prompt (prompt req) (history req);
          inputs = (query, Some (dict_get (max_input_length req) 512));
          call = (generation_kwargs st)\<lparr>kw_inputs := Some inputs, kw_streamer := True\<rparr>;
          st = st\<lparr>generation_kwargs := call, generate_calls := generate_calls st @ [call]\<rparr>;
          (evs, r) = event_loop disc (prompt req) (history req) (stream_text m call) 0 [] None
      in case r of
           Inl e \<Rightarrow> ((evs, Some e), st)
         | Inr (last_msg, new_text) \<Rightarrow>
             (case new_text of
                None \<Rightarrow> ((evs, Some NameError), st)
              | Some nt \<Rightarrow>
                  (case history req of
                     None \<Rightarrow> ((evs, Some TypeError), st)
                   | Some h \<Rightarrow>
                       ((evs @ [\<lparr>event = ''finish'', event_id = ''finish_id'', retry = 15000,
                                  data_response = nt, data_history = h @ [(prompt req, last_msg)],
                                  data_finish = True\<rparr>], None), st))))"

definition stream_chat ::
  "llm \<Rightarrow> (nat \<Rightarrow> bool) \<Rightarrow> chat_request \<Rightarrow> server_state
   \<Rightarrow> (sse_event list \<times> py_error option) \<times> server_state" where
  "stream_chat m disc req st = event_generator m disc req (resolve_parameters req st)"

section \<open>The OpenAI-compatible endpoint \<open>/v1/chat/completions\<close>\<close>

datatype role = User | Assistant | System

record chat_message =
  role :: role
  content :: string

record chat_completion_request =
  model :: string
  messages :: "chat_message list"
  req_temperature :: "real option"
  req_top_p :: "real option"
  req_max_length :: "int option"
  stream :: "bool option"

datatype finish_reason = Stop | Length

record delta_message =
  delta_role :: "role option"
  delta_content :: "string option"

record chat_completion_response_choice =
  index :: int
  message :: chat_message
  finish_reason :: finish_reason

record chat_completion_response_stream_choice =
  stream_index :: int
  delta :: delta_message
  stream_finish_reason :: "finish_reason option"

datatype choice =
  Choice chat_completion_response_choice
| StreamChoice chat_completion_response_stream_choice

text \<open>The \<open>created\<close> field (the wall clock) is left out.\<close>

record chat_completion_response =
  response_model :: string
  choices :: "choice list"
  object :: string

text \<open>
  What the streaming generator \<open>predict\<close> yields: the JSON text of a chunk, or the
  literal \<open>[DONE]\<close>.
\<close>

datatype stream_item = Chunk chat_completion_response | Done

datatype completion_result =
  Completion chat_completion_response
| EventSource "stream_item list"

text \<open>\<open>range(0, n, 2)\<close>.\<close>

definition range_step2 :: "nat \<Rightarrow> nat list" where
  "range_step2 n = map (\<lambda>k. 2 * k) [0..<(n + 1) div 2]"

text \<open>
  Lines 303 to 321 of \<open>create_chat_completion\<close>, for a non-empty message list whose
  role check has passed: the query, with the content of a leading system message put in
  front of it, and the history folded from the remaining earlier messages.
  \<open>history_step\<close> is the body of the loop \<open>for i in range(0, len(prev_messages), 2)\<close>,
  which appends the pair at \<open>i\<close> and \<open>i + 1\<close> when its roles are user and assistant.
\<close>

definition history_step :: "chat_message list \<Rightarrow> turn list \<Rightarrow> nat \<Rightarrow> turn list" where
  "history_step prev_messages hist i =
     (if role (prev_messages ! i) = User \<and> role (prev_messages ! (i + 1)) = Assistant
      then hist @ [(content (prev_messages ! i), content (prev_messages ! (i + 1)))]
      else hist)"

definition fold_history :: "chat_message list \<Rightarrow> turn list" where
  "fold_history prev_messages =
     (if length prev_messages mod 2 = 0 then
        foldl (history_step prev_messages) [] (range_step2 (length prev_messages))
      else [])"

definition query_and_history :: "chat_message list \<Rightarrow> string \<times> turn list" where
  "query_and_history msgs =
     (let query = content (last msgs);
          prev_messages = butlast msgs;
          (query, prev_messages) =
             (if length prev_messages > 0 \<and> role (prev_messages ! 0) = System
              then (content (prev_messages ! 0) @ query, tl prev_messages)
              else (query, prev_messages))
      in (query, fold_history prev_messages))"

definition stream_chunk :: "string \<Rightarrow> delta_message \<Rightarrow> finish_reason option \<Rightarrow> stream_item" where
  "stream_chunk model_id d fr =
     Chunk \<lparr>response_model = model_id,
            choices = [StreamChoice \<lparr>stream_index = 0, delta = d, stream_finish_reason = fr\<rparr>],
            object = ''chat.completion.chunk''\<rparr>"

text \<open>
  \<open>predict\<close>, run to its end: the chunk announcing the assistant's turn, one chunk per
  non-empty fragment, the closing chunk and the termination marker.
\<close>

definition predict ::
  "llm \<Rightarrow> string \<Rightarrow> turn list \<Rightarrow> string \<Rightarrow> server_state \<Rightarrow> stream_item list \<times> server_state" where
  "predict m query hist model_id st =
     (let first = stream_chunk model_id \<lparr>delta_role = Some Assistant, delta_content = None\<rparr> None;
          query = get_prompt query (Some hist);
          call = (generation_kwargs st)\<lparr>kw_inputs := Some (query, None), kw_streamer := True\<rparr>;
          st = st\<lparr>generation_kwargs := call, generate_calls := generate_calls st @ [call]\<rparr>;
          chunks = map (\<lambda>new_text.
                          stream_chunk model_id
                            \<lparr>delta_role = None, delta_content = Some new_text\<rparr> None)
                       (filter (\<lambda>new_text. length new_text \<noteq> 0) (stream_text m call));
          final = stream_chunk model_id \<lparr>delta_role = None, delta_content = None\<rparr> (Some Stop)
      in ([first] @ chunks @ [final, Done], st))"

text \<open>
  \<open>create_chat_completion\<close>. \<open>request.messages[-1]\<close> raises an \<open>IndexError\<close> on an
  empty list. The sampling fields of the request are not read. In the non-streaming
  branch the tokenizer output is stored in the dictionary and \<open>model.generate\<close> is
  called with the dictionary.
\<close>

definition create_chat_completion ::
  "llm \<Rightarrow> chat_completion_request \<Rightarrow> server_state
   \<Rightarrow> (py_error + completion_result) \<times> server_state" where
  "create_chat_completion m request st =
     (if messages request = [] then (Inl IndexError, st)
      else if role (last (messages request)) \<noteq> User
      then (Inl (HTTPException 400 ''Invalid request''), st)
      else
        let (query, hist) = query_and_history (messages request)
        in if stream request = Some True
           then (let (items, st) = predict m query hist (model request) st
                 in (Inr (EventSource items), st))
           else
             let query_text = py_strip (py_lstrip ''\<newline>'' query);
                 input_text = get_prompt query_text (Some hist);
                 call = (generation_kwargs st)\<lparr>kw_inputs := Some (input_text, None)\<rparr>;
                 st = st\<lparr>generation_kwargs := call, generate_calls := generate_calls st @ [call]\<rparr>;
                 output = generate m call;
                 response = postprocess (decode_response m output);
                 choice_data = \<lparr>index = 0,
                                message = \<lparr>role = Assistant, content = response\<rparr>,
                                finish_reason = Stop\<rparr>
             in (Inr (Completion \<lparr>response_model = model request,
                                   choices = [Choice choice_data],
                                   object = ''chat.completion''\<rparr>), st))"

text \<open>
  The specification's reading of the history reconstruction: the earlier messages are
  taken two at a time, in order; a pair of a user message and an assistant message
  becomes a turn, any other pair is skipped.
\<close>

fun pair_turns :: "chat_message list \<Rightarrow> turn list" where
  "pair_turns (a # b # rest) =
     (if role a = User \<and> role b = Assistant then [(content a, content b)] else [])
     @ pair_turns rest"
| "pair_turns _ = []"

text \<open>
  Removing a literal suffix, for comparison with what \<open>rstrip\<close> does: the string loses
  the suffix when it ends with it and is unchanged otherwise.
\<close>

definition remove_literal_suffix :: "string \<Rightarrow> string \<Rightarrow> string" where
  "remove_literal_suffix suf s =
     (if length suf \<le> length s \<and> drop (length s - length suf) s = suf
      then take (length s - length suf) s else s)"

text \<open>
  The stripping the specification describes for queries: leading and trailing newlines
  removed, nothing else.
\<close>

definition strip_newlines :: "string \<Rightarrow> string" where
  "strip_newlines s = py_rstrip ''\<newline>'' (py_lstrip ''\<newline>'' s)"

section \<open>A concrete model and state for evaluating the handlers\<close>

text \<open>
  A model that answers every call with the tokens 5, 6 and the end-of-sequence token 2,
  unless the length bound is 2, where it stops after two tokens without the
  end-of-sequence token; and a state as after start-up, with the tokenizer's window at
  1024.
\<close>

definition example_llm :: llm where
  "example_llm =
     \<lparr>generate = (\<lambda>kw. if max_length kw = Some 2 then [5, 6] else [5, 6, 2]),
      stream_text = (\<lambda>kw. [''a'', ''b'', ''c'']),
      decode = (\<lambda>t. if t = 5 then ''The door is wide-'' else if t = 6 then ''open'' else ''</s>''),
      eos_token_id = 2\<rparr>"

definition example_state :: server_state where
  "example_state =
     \<lparr>generation_kwargs =
        \<lparr>max_length = Some 1024, top_p = Some 0.95, temperature = Some 0.8,
         kw_inputs = None, kw_streamer = False\<rparr>,
      model_max_length = Some 1024,
      generate_calls = []\<rparr>"

definition example_chat_request :: chat_request where
  "example_chat_request =
     \<lparr>prompt = ''Hello'', history = Some [], max_input_length = None,
      max_generate_length = None, post_top_p = None, post_temperature = None\<rparr>"

definition example_completion_request :: chat_completion_request where
  "example_completion_request =
     \<lparr>model = ''x'', messages = [\<lparr>role = User, content = ''Hi''\<rparr>],
      req_temperature = None, req_top_p = None, req_max_length = None, stream = None\<rparr>"

section \<open>Properties of prompt rendering\<close>

lemma get_prompt_step:
  "(\<lambda>prompt (old_query, response).
       prompt @ ''\<newline>\<newline>### Instruction:\<newline>'' @ old_query
              @ ''\<newline>\<newline>### Response:\<newline>'' @ response)
   = (\<lambda>prompt t. prompt @ render_block t)"
  by (simp add: fun_eq_iff render_block_def split_beta)

lemma foldl_append_blocks:
  "foldl (\<lambda>prompt t. prompt @ render_block t) acc h = acc @ concat (map render_block h)"
  by (induction h arbitrary: acc) simp_all

lemma get_prompt_loop:
  "foldl (\<lambda>prompt (old_query, response).
            prompt @ ''\<newline>\<newline>### Instruction:\<newline>'' @ old_query
                   @ ''\<newline>\<newline>### Response:\<newline>'' @ response) acc h
   = acc @ concat (map render_block h)"
  unfolding get_prompt_step by (rule foldl_append_blocks)

text \<open>
  Claim C2. With an empty or absent history \<open>get_prompt\<close> returns exactly one block
  holding only the query; with a history of \<open>n\<close> turns it returns the concatenation of
  \<open>n + 1\<close> blocks: the historical turns in their original order (instruction the old
  query, response the old answer), then a block with the query and an empty response.
\<close>

theorem get_prompt_blocks:
  "get_prompt q None = render_block (q, [])
   \<and> get_prompt q (Some []) = render_block (q, [])
   \<and> get_prompt q (Some h) = concat (map render_block (h @ [(q, [])]))
   \<and> length (h @ [(q, [])]) = length h + 1
   \<and> take (length h) (h @ [(q, [])]) = h
   \<and> last (h @ [(q, [])]) = (q, [])"
proof -
  have single: "get_prompt q None = render_block (q, [])"
    "get_prompt q (Some []) = render_block (q, [])"
    by (simp_all add: get_prompt_def render_block_def)
  have many: "get_prompt q (Some h) = concat (map render_block (h @ [(q, [])]))"
  proof (cases "h = []")
    case True
    then show ?thesis using single(2) by simp
  next
    case False
    then have "get_prompt q (Some h) = concat (map render_block h) @ render_block (q, [])"
      unfolding get_prompt_def get_prompt_loop by (simp add: render_block_def)
    then show ?thesis by simp
  qed
  show ?thesis using single many by simp
qed

section \<open>Parameter resolution and the tokenizer's window\<close>

lemma resolve_parameters_fields:
  "max_length (generation_kwargs (resolve_parameters req st))
     = Some (dict_get (max_generate_length req) (dict_get (max_length (generation_kwargs st)) 1024))"
  "top_p (generation_kwargs (resolve_parameters req st))
     = Some (dict_get (post_top_p req) (dict_get (top_p (generation_kwargs st)) 0.95))"
  "temperature (generation_kwargs (resolve_parameters req st))
     = Some (dict_get (post_temperature req) (dict_get (temperature (generation_kwargs st)) 0.8))"
  "kw_inputs (generation_kwargs (resolve_parameters req st)) = kw_inputs (generation_kwargs st)"
  "kw_streamer (generation_kwargs (resolve_parameters req st)) = kw_streamer (generation_kwargs st)"
  "generate_calls (resolve_parameters req st) = generate_calls st"
  "model_max_length (resolve_parameters req st)
     = Some (case model_max_length st of
               None \<Rightarrow> dict_get (max_generate_length req) (dict_get (max_length (generation_kwargs st)) 1024)
             | Some w \<Rightarrow> min w (dict_get (max_generate_length req) (dict_get (max_length (generation_kwargs st)) 1024)))"
  by (simp_all add: resolve_parameters_def Let_def min_def split: option.splits)

lemma create_item_state:
  "generation_kwargs (snd (create_item m req st)) = generation_kwargs (resolve_parameters req st)"
  "model_max_length (snd (create_item m req st)) = model_max_length (resolve_parameters req st)"
  by (simp_all add: create_item_def Let_def split: option.splits)

lemma event_generator_state:
  "generation_kwargs (snd (event_generator m disc req st))
     = (generation_kwargs st)\<lparr>kw_inputs := Some (get_prompt (prompt req) (history req),
                                    Some (dict_get (max_input_length req) 512)),
                               kw_streamer := True\<rparr>"
  "model_max_length (snd (event_generator m disc req st)) = model_max_length st"
  "generate_calls (snd (event_generator m disc req st))
     = generate_calls st @ [(generation_kwargs st)\<lparr>kw_inputs := Some (get_prompt (prompt req) (history req),
                                    Some (dict_get (max_input_length req) 512)),
                               kw_streamer := True\<rparr>]"
  by (simp_all add: event_generator_def Let_def split: option.splits prod.splits sum.splits)

text \<open>
  Claim C1, as amended. After the parameter resolution of \<open>/chat\<close> and of
  \<open>/stream_chat\<close> the tokenizer's window is set and never exceeds the resolved maximum
  generate length: a window that was unset or greater than the resolved length is lowered
  to it, and any other window is kept as it was. The window is never enlarged.
\<close>

theorem window_never_above_length:
  "(\<exists>ml w. max_length (generation_kwargs (snd (create_item m req st))) = Some ml
       \<and> model_max_length (snd (create_item m req st)) = Some w
       \<and> ml = dict_get (max_generate_length req) (dict_get (max_length (generation_kwargs st)) 1024)
       \<and> w = (case model_max_length st of None \<Rightarrow> ml | Some w0 \<Rightarrow> min w0 ml)
       \<and> w \<le> ml)
   \<and> (\<exists>ml w. max_length (generation_kwargs (snd (stream_chat m disc req st))) = Some ml
       \<and> model_max_length (snd (stream_chat m disc req st)) = Some w
       \<and> ml = dict_get (max_generate_length req) (dict_get (max_length (generation_kwargs st)) 1024)
       \<and> w = (case model_max_length st of None \<Rightarrow> ml | Some w0 \<Rightarrow> min w0 ml)
       \<and> w \<le> ml)"
  by (simp add: create_item_state stream_chat_def event_generator_state resolve_parameters_fields
      split: option.splits)

text \<open>
  Claim C1 as stated fails: with the window at 1024, a \<open>/chat\<close> request for a maximum
  generate length of 2048 leaves the window at 1024, below the resolved length 2048.
\<close>

theorem window_not_enlarged:
  "max_length (generation_kwargs (snd (create_item example_llm
       (example_chat_request\<lparr>max_generate_length := Some 2048\<rparr>) example_state))) = Some 2048
   \<and> model_max_length (snd (create_item example_llm
       (example_chat_request\<lparr>max_generate_length := Some 2048\<rparr>) example_state)) = Some 1024
   \<and> model_max_length example_state = Some 1024"
  by (simp add: create_item_state resolve_parameters_fields example_state_def
       example_chat_request_def dict_get_def)

section \<open>Validation and history reconstruction of \<open>/v1/chat/completions\<close>\<close>

lemma history_loop_shift:
  "length xs = 2 * n \<Longrightarrow>
   foldl (history_step (pre @ xs)) acc (map (\<lambda>k. length pre + 2 * k) [0..<n])
     = acc @ pair_turns xs"
proof (induction xs arbitrary: n pre acc rule: pair_turns.induct)
  case (1 a b rest)
  then obtain n' where n: "n = Suc n'" and len: "length rest = 2 * n'"
    by (cases n) auto
  have idx: "map (\<lambda>k. length pre + 2 * k) [0..<Suc n']
             = length pre # map (\<lambda>k. length (pre @ [a, b]) + 2 * k) [0..<n']"
    by (simp add: upt_conv_Cons map_Suc_upt [symmetric] del: upt_Suc)
  have first: "history_step (pre @ a # b # rest) acc (length pre)
               = acc @ (if role a = User \<and> role b = Assistant then [(content a, content b)] else [])"
    by (simp add: history_step_def nth_append)
  have "foldl (history_step (pre @ a # b # rest)) acc (map (\<lambda>k. length pre + 2 * k) [0..<n])
        = foldl (history_step (pre @ a # b # rest))
            (history_step (pre @ a # b # rest) acc (length pre))
            (map (\<lambda>k. length (pre @ [a, b]) + 2 * k) [0..<n'])"
    unfolding n idx by (simp only: foldl_Cons)
  also have "\<dots> = foldl (history_step ((pre @ [a, b]) @ rest))
            (acc @ (if role a = User \<and> role b = Assistant then [(content a, content b)] else []))
            (map (\<lambda>k. length (pre @ [a, b]) + 2 * k) [0..<n'])"
    unfolding first by simp
  also have "\<dots> = (acc @ (if role a = User \<and> role b = Assistant then [(content a, content b)] else []))
                    @ pair_turns rest"
    by (rule "1.IH" [OF len])
  finally show ?case by simp
qed simp_all

lemma fold_history_pairs:
  "fold_history pm = (if even (length pm) then pair_turns pm else [])"
proof (cases "even (length pm)")
  case True
  then obtain n where n: "length pm = 2 * n" by (auto elim: evenE)
  have "(length pm + 1) div 2 = n" using n by simp
  moreover have "foldl (history_step ([] @ pm)) [] (map (\<lambda>k. length ([]::chat_message list) + 2 * k) [0..<n])
      = [] @ pair_turns pm"
    by (rule history_loop_shift [OF n])
  ultimately show ?thesis using True
    by (simp add: fold_history_def range_step2_def even_iff_mod_2_eq_zero)
next
  case False
  then show ?thesis by (simp add: fold_history_def even_iff_mod_2_eq_zero)
qed

lemma create_chat_completion_user:
  assumes "messages request \<noteq> []" "role (last (messages request)) = User"
  shows "\<exists>r st'. create_chat_completion m request st = (Inr r, st')"
  using assms by (simp add: create_chat_completion_def Let_def split: prod.splits)

text \<open>
  Claim C5. A request to \<open>/v1/chat/completions\<close> with a non-empty message list whose
  last message is not from the user is rejected with HTTP status 400 and the state is
  returned as it was, so that no call to the model has been made; a request whose last
  message is from the user passes this check and the handler returns a result.
\<close>

theorem last_role_validation:
  assumes "messages request \<noteq> []"
  shows "(role (last (messages request)) \<noteq> User \<longrightarrow>
            create_chat_completion m request st = (Inl (HTTPException 400 ''Invalid request''), st))
       \<and> (role (last (messages request)) = User \<longrightarrow>
            (\<exists>r st'. create_chat_completion m request st = (Inr r, st')))"
proof (intro conjI impI)
  assume "role (last (messages request)) \<noteq> User"
  with assms show "create_chat_completion m request st = (Inl (HTTPException 400 ''Invalid request''), st)"
    by (simp add: create_chat_completion_def)
next
  assume "role (last (messages request)) = User"
  with assms show "\<exists>r st'. create_chat_completion m request st = (Inr r, st')"
    by (rule create_chat_completion_user)
qed

theorem last_role_validation_witness:
  "create_chat_completion example_llm
      (example_completion_request\<lparr>messages := [\<lparr>role = User, content = ''Hi''\<rparr>,
                                                 \<lparr>role = Assistant, content = ''Hello''\<rparr>]\<rparr>)
      example_state
     = (Inl (HTTPException 400 ''Invalid request''), example_state)
   \<and> (\<exists>r st'. create_chat_completion example_llm example_completion_request example_state
                 = (Inr r, st'))"
  using last_role_validation [of "example_completion_request\<lparr>messages := [\<lparr>role = User, content = ''Hi''\<rparr>,
                                                 \<lparr>role = Assistant, content = ''Hello''\<rparr>]\<rparr>" example_llm example_state]
    last_role_validation [of example_completion_request example_llm example_state]
  by (simp add: example_completion_request_def)

text \<open>
  Claim C9. With an empty message list the handler raises an \<open>IndexError\<close> at
  \<open>request.messages[-1]\<close>: the result is that error and not the HTTP 400 rejection; the
  role check is not reached and no generation is started.
\<close>

theorem empty_messages_index_error:
  assumes "messages request = []"
  shows "create_chat_completion m request st = (Inl IndexError, st)
       \<and> fst (create_chat_completion m request st) \<noteq> Inl (HTTPException 400 ''Invalid request'')
       \<and> generate_calls (snd (create_chat_completion m request st)) = generate_calls st"
  using assms by (simp add: create_chat_completion_def)

theorem empty_messages_index_error_witness:
  "create_chat_completion example_llm (example_completion_request\<lparr>messages := []\<rparr>) example_state
     = (Inl IndexError, example_state)"
  using empty_messages_index_error [of "example_completion_request\<lparr>messages := []\<rparr>" example_llm example_state]
  by simp

lemma role_check_reached:
  "fst (create_chat_completion m request st) = Inl (HTTPException c d) \<Longrightarrow> messages request \<noteq> []"
  by (auto simp add: create_chat_completion_def)


lemma query_and_history_split:
  "query_and_history (prior @ [lastm]) =
     (if prior \<noteq> [] \<and> role (hd prior) = System
      then (content (hd prior) @ content lastm, fold_history (tl prior))
      else (content lastm, fold_history prior))"
  by (cases prior) (simp_all add: query_and_history_def Let_def)

lemma create_chat_completion_calls:
  assumes "messages request \<noteq> []" "role (last (messages request)) = User"
    "stream request \<noteq> Some True" "query_and_history (messages request) = (q, h)"
  shows "generate_calls (snd (create_chat_completion m request st))
         = generate_calls st
           @ [(generation_kwargs st)\<lparr>kw_inputs :=
                 Some (get_prompt (py_strip (py_lstrip ''\<newline>'' q)) (Some h), None)\<rparr>]"
  using assms by (simp add: create_chat_completion_def Let_def)

lemma predict_calls:
  "generate_calls (snd (predict m q h model_id st))
   = generate_calls st
     @ [(generation_kwargs st)\<lparr>kw_inputs := Some (get_prompt q (Some h), None),
                               kw_streamer := True\<rparr>]"
  by (simp add: predict_def Let_def)

lemma create_chat_completion_streaming:
  assumes "messages request \<noteq> []" "role (last (messages request)) = User"
    "stream request = Some True" "query_and_history (messages request) = (q, h)"
  shows "create_chat_completion m request st
         = (Inr (EventSource (fst (predict m q h (model request) st))),
            snd (predict m q h (model request) st))"
  using assms by (simp add: create_chat_completion_def Let_def split_beta)

lemma create_chat_completion_aggregate:
  assumes "messages request \<noteq> []" "role (last (messages request)) = User"
    "stream request \<noteq> Some True" "query_and_history (messages request) = (q, h)"
  shows "create_chat_completion m request st
         = (Inr (Completion
              \<lparr>response_model = model request,
               choices = [Choice \<lparr>index = 0,
                  message = \<lparr>role = Assistant,
                    content = postprocess (decode_response m (generate m
                      ((generation_kwargs st)\<lparr>kw_inputs :=
                         Some (get_prompt (py_strip (py_lstrip ''\<newline>'' q)) (Some h), None)\<rparr>)))\<rparr>,
                  finish_reason = Stop\<rparr>],
               object = ''chat.completion''\<rparr>),
            st\<lparr>generation_kwargs := (generation_kwargs st)\<lparr>kw_inputs :=
                   Some (get_prompt (py_strip (py_lstrip ''\<newline>'' q)) (Some h), None)\<rparr>,
               generate_calls := generate_calls st
                 @ [(generation_kwargs st)\<lparr>kw_inputs :=
                      Some (get_prompt (py_strip (py_lstrip ''\<newline>'' q)) (Some h), None)\<rparr>]\<rparr>)"
  using assms by (simp add: create_chat_completion_def Let_def)

text \<open>
  Claim C6. For every request whose last message is from the user: when the first of the
  earlier messages is a system message, its content is put in front of the query and it
  takes no part in the history; the remaining earlier messages are folded into the
  history as consecutive pairs in order, a pair that is not (user, assistant) being
  skipped; when their number is odd the history is empty. No error is raised. The
  handler works on exactly this query and history: without streaming it calls the model
  on the prompt rendered from them and answers with the post-processed output; with
  streaming its result and its state are those of \<open>predict\<close> run on them, whose model
  call is on the prompt rendered from them.
\<close>

theorem history_reconstruction:
  assumes "messages request = prior @ [lastm]" "role lastm = User"
  shows "(let sys = (prior \<noteq> [] \<and> role (hd prior) = System);
              rest = (if sys then tl prior else prior);
              q = (if sys then content (hd prior) @ content lastm else content lastm);
              h = (if even (length rest) then pair_turns rest else [])
          in query_and_history (messages request) = (q, h)
             \<and> (\<exists>r st'. create_chat_completion m request st = (Inr r, st'))
             \<and> (stream request \<noteq> Some True \<longrightarrow>
                  generate_calls (snd (create_chat_completion m request st))
                  = generate_calls st
                    @ [(generation_kwargs st)\<lparr>kw_inputs :=
                          Some (get_prompt (py_strip (py_lstrip ''\<newline>'' q)) (Some h), None)\<rparr>])
             \<and> (stream request \<noteq> Some True \<longrightarrow>
                  create_chat_completion m request st
                  = (Inr (Completion
                       \<lparr>response_model = model request,
                        choices = [Choice \<lparr>index = 0,
                           message = \<lparr>role = Assistant,
                             content = postprocess (decode_response m (generate m
                               ((generation_kwargs st)\<lparr>kw_inputs :=
                                  Some (get_prompt (py_strip (py_lstrip ''\<newline>'' q)) (Some h),
                                        None)\<rparr>)))\<rparr>,
                           finish_reason = Stop\<rparr>],
                        object = ''chat.completion''\<rparr>),
                     st\<lparr>generation_kwargs := (generation_kwargs st)\<lparr>kw_inputs :=
                            Some (get_prompt (py_strip (py_lstrip ''\<newline>'' q)) (Some h), None)\<rparr>,
                        generate_calls := generate_calls st
                          @ [(generation_kwargs st)\<lparr>kw_inputs :=
                               Some (get_prompt (py_strip (py_lstrip ''\<newline>'' q)) (Some h),
                                     None)\<rparr>]\<rparr>))
             \<and> (stream request = Some True \<longrightarrow>
                  create_chat_completion m request st
                  = (Inr (EventSource (fst (predict m q h (model request) st))),
                     snd (predict m q h (model request) st))
                  \<and> generate_calls (snd (create_chat_completion m request st))
                    = generate_calls st
                      @ [(generation_kwargs st)\<lparr>kw_inputs := Some (get_prompt q (Some h), None),
                                                kw_streamer := True\<rparr>]))"
proof -
  define sys where "sys = (prior \<noteq> [] \<and> role (hd prior) = System)"
  define rest where "rest = (if sys then tl prior else prior)"
  define q where "q = (if sys then content (hd prior) @ content lastm else content lastm)"
  define h where "h = (if even (length rest) then pair_turns rest else [])"
  have ne: "messages request \<noteq> []" and usr: "role (last (messages request)) = User"
    using assms by simp_all
  have qh: "query_and_history (messages request) = (q, h)"
    unfolding assms(1) query_and_history_split fold_history_pairs
    by (simp add: sys_def rest_def q_def h_def)
  have ok: "\<exists>r st'. create_chat_completion m request st = (Inr r, st')"
    using ne usr by (rule create_chat_completion_user)
  have calls: "stream request \<noteq> Some True \<longrightarrow>
      generate_calls (snd (create_chat_completion m request st))
      = generate_calls st
        @ [(generation_kwargs st)\<lparr>kw_inputs :=
              Some (get_prompt (py_strip (py_lstrip ''\<newline>'' q)) (Some h), None)\<rparr>]"
    using create_chat_completion_calls [OF ne usr _ qh] by blast
  have agg: "stream request \<noteq> Some True \<longrightarrow>
      create_chat_completion m request st
      = (Inr (Completion
           \<lparr>response_model = model request,
            choices = [Choice \<lparr>index = 0,
               message = \<lparr>role = Assistant,
                 content = postprocess (decode_response m (generate m
                   ((generation_kwargs st)\<lparr>kw_inputs :=
                      Some (get_prompt (py_strip (py_lstrip ''\<newline>'' q)) (Some h),
                            None)\<rparr>)))\<rparr>,
               finish_reason = Stop\<rparr>],
            object = ''chat.completion''\<rparr>),
         st\<lparr>generation_kwargs := (generation_kwargs st)\<lparr>kw_inputs :=
                Some (get_prompt (py_strip (py_lstrip ''\<newline>'' q)) (Some h), None)\<rparr>,
            generate_calls := generate_calls st
              @ [(generation_kwargs st)\<lparr>kw_inputs :=
                   Some (get_prompt (py_strip (py_lstrip ''\<newline>'' q)) (Some h),
                         None)\<rparr>]\<rparr>)"
    using create_chat_completion_aggregate [OF ne usr _ qh] by blast
  have str: "stream request = Some True \<longrightarrow>
      create_chat_completion m request st
      = (Inr (EventSource (fst (predict m q h (model request) st))),
         snd (predict m q h (model request) st))
      \<and> generate_calls (snd (create_chat_completion m request st))
        = generate_calls st
          @ [(generation_kwargs st)\<lparr>kw_inputs := Some (get_prompt q (Some h), None),
                                    kw_streamer := True\<rparr>]"
  proof
    assume s: "stream request = Some True"
    have eq: "create_chat_completion m request st
      = (Inr (EventSource (fst (predict m q h (model request) st))),
         snd (predict m q h (model request) st))"
      using ne usr s qh by (rule create_chat_completion_streaming)
    then have "generate_calls (snd (create_chat_completion m request st))
        = generate_calls (snd (predict m q h (model request) st))" by simp
    with eq show "create_chat_completion m request st
      = (Inr (EventSource (fst (predict m q h (model request) st))),
         snd (predict m q h (model request) st))
      \<and> generate_calls (snd (create_chat_completion m request st))
        = generate_calls st
          @ [(generation_kwargs st)\<lparr>kw_inputs := Some (get_prompt q (Some h), None),
                                    kw_streamer := True\<rparr>]"
      by (simp only: predict_calls simp_thms)
  qed
  show ?thesis
    unfolding Let_def sys_def [symmetric] rest_def [symmetric]
      q_def [symmetric] h_def [symmetric]
    using qh ok calls agg str by (intro conjI)
qed

theorem history_reconstruction_witness:
  "query_and_history
     [\<lparr>role = System, content = ''S''\<rparr>, \<lparr>role = User, content = ''q1''\<rparr>,
      \<lparr>role = Assistant, content = ''a1''\<rparr>, \<lparr>role = Assistant, content = ''x''\<rparr>,
      \<lparr>role = User, content = ''y''\<rparr>, \<lparr>role = User, content = ''Q''\<rparr>]
   = (''SQ'', [(''q1'', ''a1'')])
   \<and> query_and_history
     [\<lparr>role = User, content = ''q1''\<rparr>, \<lparr>role = User, content = ''Q''\<rparr>]
   = (''Q'', [])
   \<and> generate_calls (snd (create_chat_completion example_llm
        (example_completion_request\<lparr>messages :=
           [\<lparr>role = User, content = ''q1''\<rparr>, \<lparr>role = Assistant, content = ''a1''\<rparr>,
            \<lparr>role = User, content = ''Q''\<rparr>], stream := Some True\<rparr>) example_state))
     = generate_calls example_state
       @ [(generation_kwargs example_state)\<lparr>kw_inputs :=
            Some (get_prompt ''Q'' (Some [(''q1'', ''a1'')]), None), kw_streamer := True\<rparr>]"
proof -
  have sys_case: "query_and_history
     [\<lparr>role = System, content = ''S''\<rparr>, \<lparr>role = User, content = ''q1''\<rparr>,
      \<lparr>role = Assistant, content = ''a1''\<rparr>, \<lparr>role = Assistant, content = ''x''\<rparr>,
      \<lparr>role = User, content = ''y''\<rparr>, \<lparr>role = User, content = ''Q''\<rparr>]
   = (''SQ'', [(''q1'', ''a1'')])"
    using history_reconstruction
      [of "example_completion_request\<lparr>messages :=
           [\<lparr>role = System, content = ''S''\<rparr>, \<lparr>role = User, content = ''q1''\<rparr>,
            \<lparr>role = Assistant, content = ''a1''\<rparr>, \<lparr>role = Assistant, content = ''x''\<rparr>,
            \<lparr>role = User, content = ''y''\<rparr>, \<lparr>role = User, content = ''Q''\<rparr>]\<rparr>"
        "[\<lparr>role = System, content = ''S''\<rparr>, \<lparr>role = User, content = ''q1''\<rparr>,
            \<lparr>role = Assistant, content = ''a1''\<rparr>, \<lparr>role = Assistant, content = ''x''\<rparr>,
            \<lparr>role = User, content = ''y''\<rparr>]"
        "\<lparr>role = User, content = ''Q''\<rparr>" example_llm example_state]
    by (simp add: Let_def)
  have odd_case: "query_and_history
     [\<lparr>role = User, content = ''q1''\<rparr>, \<lparr>role = User, content = ''Q''\<rparr>]
   = (''Q'', [])"
    using history_reconstruction
      [of "example_completion_request\<lparr>messages :=
           [\<lparr>role = User, content = ''q1''\<rparr>, \<lparr>role = User, content = ''Q''\<rparr>]\<rparr>"
        "[\<lparr>role = User, content = ''q1''\<rparr>]"
        "\<lparr>role = User, content = ''Q''\<rparr>" example_llm example_state]
    by (simp add: Let_def)
  have stream_case: "generate_calls (snd (create_chat_completion example_llm
        (example_completion_request\<lparr>messages :=
           [\<lparr>role = User, content = ''q1''\<rparr>, \<lparr>role = Assistant, content = ''a1''\<rparr>,
            \<lparr>role = User, content = ''Q''\<rparr>], stream := Some True\<rparr>) example_state))
     = generate_calls example_state
       @ [(generation_kwargs example_state)\<lparr>kw_inputs :=
            Some (get_prompt ''Q'' (Some [(''q1'', ''a1'')]), None), kw_streamer := True\<rparr>]"
    using history_reconstruction
      [of "example_completion_request\<lparr>messages :=
           [\<lparr>role = User, content = ''q1''\<rparr>, \<lparr>role = Assistant, content = ''a1''\<rparr>,
            \<lparr>role = User, content = ''Q''\<rparr>], stream := Some True\<rparr>"
        "[\<lparr>role = User, content = ''q1''\<rparr>, \<lparr>role = Assistant, content = ''a1''\<rparr>]"
        "\<lparr>role = User, content = ''Q''\<rparr>" example_llm example_state]
    by (simp add: Let_def predict_calls)
  from sys_case odd_case stream_case show ?thesis by (intro conjI)
qed

section \<open>Stripping of queries and responses\<close>

lemma py_rstrip_decomp:
  "\<exists>t. s = py_rstrip cs s @ t \<and> set t \<subseteq> set cs
       \<and> (py_rstrip cs s = [] \<or> last (py_rstrip cs s) \<notin> set cs)"
proof -
  let ?P = "\<lambda>c. c \<in> set cs"
  have "rev (takeWhile ?P (rev s) @ dropWhile ?P (rev s)) = s"
    by (simp only: takeWhile_dropWhile_id rev_rev_ident)
  then have "rev (dropWhile ?P (rev s)) @ rev (takeWhile ?P (rev s)) = s"
    by (simp only: rev_append)
  then have s: "s = py_rstrip cs s @ rev (takeWhile ?P (rev s))"
    by (simp only: py_rstrip_def)
  have t: "set (rev (takeWhile ?P (rev s))) \<subseteq> set cs"
    by (auto dest: set_takeWhileD)
  have l: "py_rstrip cs s = [] \<or> last (py_rstrip cs s) \<notin> set cs"
  proof (cases "dropWhile ?P (rev s) = []")
    case True
    then show ?thesis by (simp add: py_rstrip_def)
  next
    case False
    then have "\<not> ?P (hd (dropWhile ?P (rev s)))" by (rule hd_dropWhile)
    with False show ?thesis by (simp add: py_rstrip_def last_rev)
  qed
  from s t l show ?thesis by blast
qed

lemma py_lstrip_decomp:
  "\<exists>t. s = t @ py_lstrip cs s \<and> set t \<subseteq> set cs
       \<and> (py_lstrip cs s = [] \<or> hd (py_lstrip cs s) \<notin> set cs)"
proof -
  let ?P = "\<lambda>c. c \<in> set cs"
  have s: "s = takeWhile ?P s @ py_lstrip cs s" by (simp add: py_lstrip_def)
  have t: "set (takeWhile ?P s) \<subseteq> set cs" by (auto dest: set_takeWhileD)
  have l: "py_lstrip cs s = [] \<or> hd (py_lstrip cs s) \<notin> set cs"
    using hd_dropWhile [of ?P s] by (auto simp add: py_lstrip_def)
  from s t l show ?thesis by blast
qed

lemma response_suffix_chars:
  "set ''\<newline>### Response:''
   = {CHR ''\<newline>'', CHR ''#'', CHR '' '', CHR ''R'', CHR ''e'', CHR ''s'', CHR ''p'', CHR ''o'',
      CHR ''n'', CHR '':''}"
  by auto

lemma create_item_response:
  "fst (create_item m req st) = Inr a \<Longrightarrow>
   response a = postprocess (decode_response m
                  (generate m (last (generate_calls (snd (create_item m req st))))))"
  by (auto simp add: create_item_def Let_def split: if_splits option.splits)

lemma create_chat_completion_response:
  "fst (create_chat_completion m request st) = Inr (Completion c) \<Longrightarrow>
   choices c = [Choice \<lparr>index = 0,
                  message = \<lparr>role = Assistant,
                             content = postprocess (decode_response m
                               (generate m (last (generate_calls
                                  (snd (create_chat_completion m request st))))))\<rparr>,
                  finish_reason = Stop\<rparr>]"
  by (auto simp add: create_chat_completion_def Let_def split: if_splits prod.splits)

lemma example_create_item:
  "create_item example_llm example_chat_request example_state
   = (Inr \<lparr>response = ''The door is wide-'', answer_history = [(''Hello'', ''The door is wide-'')], status = 200\<rparr>,
      example_state\<lparr>generate_calls :=
        [(generation_kwargs example_state)\<lparr>kw_inputs :=
           Some (''### Instruction:\<newline>Hello\<newline>\<newline>### Response:'', Some 512)\<rparr>]\<rparr>)"
  by (simp add: create_item_def resolve_parameters_def example_llm_def example_chat_request_def
      example_state_def dict_get_def get_prompt_def py_strip_def py_lstrip_def py_rstrip_def
      py_whitespace_def postprocess_def decode_response_def Let_def)

lemma example_completion:
  "create_chat_completion example_llm example_completion_request example_state
   = (Inr (Completion \<lparr>response_model = ''x'',
             choices = [Choice \<lparr>index = 0,
                          message = \<lparr>role = Assistant, content = ''The door is wide-''\<rparr>,
                          finish_reason = Stop\<rparr>],
             object = ''chat.completion''\<rparr>),
      example_state\<lparr>generation_kwargs :=
          (generation_kwargs example_state)\<lparr>kw_inputs :=
             Some (''\<newline>\<newline>### Instruction:\<newline>Hi\<newline>\<newline>### Response:\<newline>'', None)\<rparr>,
        generate_calls :=
          [(generation_kwargs example_state)\<lparr>kw_inputs :=
             Some (''\<newline>\<newline>### Instruction:\<newline>Hi\<newline>\<newline>### Response:\<newline>'', None)\<rparr>]\<rparr>)"
  by (simp add: create_chat_completion_def query_and_history_def fold_history_def range_step2_def
      example_llm_def example_completion_request_def
      example_state_def get_prompt_def py_strip_def py_lstrip_def py_rstrip_def
      py_whitespace_def postprocess_def decode_response_def Let_def)

text \<open>
  Claim C10. The post-processing \<open>rstrip("\n### Response:")\<close> removes the longest
  trailing run of characters drawn from the set of the ten characters of its argument,
  not the literal suffix: what is cut off consists of such characters only and what
  remains does not end with one. The text \<open>The door is wide-open\<close>, which does not
  end with the literal suffix, loses its last four characters, \<open>open\<close>. The
  response of every \<open>/chat\<close> answer and of every non-streaming
  \<open>/v1/chat/completions\<close> answer is the decoded model output passed through this
  post-processing.
\<close>

theorem rstrip_removes_character_run:
  "(\<exists>t. py_lstrip ''\<newline>'' r = postprocess r @ t
        \<and> set t \<subseteq> {CHR ''\<newline>'', CHR ''#'', CHR '' '', CHR ''R'', CHR ''e'', CHR ''s'', CHR ''p'',
                    CHR ''o'', CHR ''n'', CHR '':''}
        \<and> (postprocess r = []
           \<or> last (postprocess r) \<notin> {CHR ''\<newline>'', CHR ''#'', CHR '' '', CHR ''R'', CHR ''e'',
                                      CHR ''s'', CHR ''p'', CHR ''o'', CHR ''n'', CHR '':''}))
   \<and> postprocess ''The door is wide-open'' = ''The door is wide-''
   \<and> remove_literal_suffix ''\<newline>### Response:'' ''The door is wide-open'' = ''The door is wide-open''
   \<and> (fst (create_item m req st) = Inr a \<longrightarrow>
        response a = postprocess (decode_response m
                       (generate m (last (generate_calls (snd (create_item m req st)))))))
   \<and> (fst (create_chat_completion m request st) = Inr (Completion c) \<longrightarrow>
        choices c = [Choice \<lparr>index = 0,
                       message = \<lparr>role = Assistant,
                                  content = postprocess (decode_response m
                                    (generate m (last (generate_calls
                                       (snd (create_chat_completion m request st))))))\<rparr>,
                       finish_reason = Stop\<rparr>])"
proof -
  have run: "\<exists>t. py_lstrip ''\<newline>'' r = postprocess r @ t
        \<and> set t \<subseteq> set ''\<newline>### Response:''
        \<and> (postprocess r = [] \<or> last (postprocess r) \<notin> set ''\<newline>### Response:'')"
    unfolding postprocess_def by (rule py_rstrip_decomp)
  have ex: "postprocess ''The door is wide-open'' = ''The door is wide-''"
    by (simp add: postprocess_def py_rstrip_def py_lstrip_def)
  have lit: "remove_literal_suffix ''\<newline>### Response:'' ''The door is wide-open'' = ''The door is wide-open''"
    by (simp add: remove_literal_suffix_def)
  show ?thesis
    using run ex lit create_item_response [of m req st a]
      create_chat_completion_response [of m request st c]
    unfolding response_suffix_chars by blast
qed

theorem rstrip_removes_character_run_witness:
  "fst (create_item example_llm example_chat_request example_state)
     = Inr \<lparr>response = ''The door is wide-'', answer_history = [(''Hello'', ''The door is wide-'')],
            status = 200\<rparr>
   \<and> postprocess (decode_response example_llm
        (generate example_llm (last (generate_calls
           (snd (create_item example_llm example_chat_request example_state))))))
     = ''The door is wide-''
   \<and> fst (create_chat_completion example_llm example_completion_request example_state)
     = Inr (Completion \<lparr>response_model = ''x'',
             choices = [Choice \<lparr>index = 0,
                          message = \<lparr>role = Assistant, content = ''The door is wide-''\<rparr>,
                          finish_reason = Stop\<rparr>],
             object = ''chat.completion''\<rparr>)
   \<and> postprocess (decode_response example_llm
        (generate example_llm (last (generate_calls
           (snd (create_chat_completion example_llm example_completion_request example_state))))))
     = ''The door is wide-''"
proof -
  have a: "fst (create_item example_llm example_chat_request example_state)
     = Inr \<lparr>response = ''The door is wide-'', answer_history = [(''Hello'', ''The door is wide-'')],
            status = 200\<rparr>"
    by (simp add: example_create_item)
  have c: "fst (create_chat_completion example_llm example_completion_request example_state)
     = Inr (Completion \<lparr>response_model = ''x'',
             choices = [Choice \<lparr>index = 0,
                          message = \<lparr>role = Assistant, content = ''The door is wide-''\<rparr>,
                          finish_reason = Stop\<rparr>],
             object = ''chat.completion''\<rparr>)"
    by (simp add: example_completion)
  note w = rstrip_removes_character_run
    [of "[]" example_llm example_chat_request example_state
        "\<lparr>response = ''The door is wide-'', answer_history = [(''Hello'', ''The door is wide-'')],
          status = 200\<rparr>"
        example_completion_request
        "\<lparr>response_model = ''x'',
          choices = [Choice \<lparr>index = 0,
                       message = \<lparr>role = Assistant, content = ''The door is wide-''\<rparr>,
                       finish_reason = Stop\<rparr>],
          object = ''chat.completion''\<rparr>",
     THEN conjunct2, THEN conjunct2, THEN conjunct2]
  from w a have r1: "response \<lparr>response = ''The door is wide-'',
        answer_history = [(''Hello'', ''The door is wide-'')], status = 200\<rparr>
     = postprocess (decode_response example_llm
        (generate example_llm (last (generate_calls
           (snd (create_item example_llm example_chat_request example_state))))))"
    by blast
  from w c have r2: "choices \<lparr>response_model = ''x'',
          choices = [Choice \<lparr>index = 0,
                       message = \<lparr>role = Assistant, content = ''The door is wide-''\<rparr>,
                       finish_reason = Stop\<rparr>],
          object = ''chat.completion''\<rparr>
     = [Choice \<lparr>index = 0,
          message = \<lparr>role = Assistant,
             content = postprocess (decode_response example_llm
               (generate example_llm (last (generate_calls
                 (snd (create_chat_completion example_llm example_completion_request
                         example_state))))))\<rparr>,
          finish_reason = Stop\<rparr>]"
    by blast
  from r1 have r1': "postprocess (decode_response example_llm
        (generate example_llm (last (generate_calls
           (snd (create_item example_llm example_chat_request example_state))))))
     = ''The door is wide-''"
    by simp
  from r2 have r2': "postprocess (decode_response example_llm
        (generate example_llm (last (generate_calls
           (snd (create_chat_completion example_llm example_completion_request example_state))))))
     = ''The door is wide-''"
    by simp
  from a r1' c r2' show ?thesis by (intro conjI)
qed

section \<open>What is stripped from the query before rendering\<close>

lemma dropWhile_weaker:
  "(\<And>x. Q x \<Longrightarrow> P x) \<Longrightarrow> dropWhile P (dropWhile Q xs) = dropWhile P xs"
  by (induction xs) auto

lemma py_strip_after_lstrip_newline: "py_strip (py_lstrip ''\<newline>'' s) = py_strip s"
proof -
  have "py_lstrip py_whitespace (py_lstrip ''\<newline>'' s) = py_lstrip py_whitespace s"
    unfolding py_lstrip_def by (rule dropWhile_weaker) (simp add: py_whitespace_def)
  then show ?thesis by (simp add: py_strip_def)
qed

lemma py_strip_decomp:
  "\<exists>a b. s = a @ py_strip s @ b \<and> set a \<subseteq> set py_whitespace \<and> set b \<subseteq> set py_whitespace
     \<and> (py_strip s = []
        \<or> (hd (py_strip s) \<notin> set py_whitespace \<and> last (py_strip s) \<notin> set py_whitespace))"
proof -
  let ?ws = py_whitespace
  obtain a where a: "s = a @ py_lstrip ?ws s" "set a \<subseteq> set ?ws"
    and hd: "py_lstrip ?ws s = [] \<or> hd (py_lstrip ?ws s) \<notin> set ?ws"
    using py_lstrip_decomp [of s ?ws] by blast
  obtain b where b: "py_lstrip ?ws s = py_strip s @ b" "set b \<subseteq> set ?ws"
    and lst: "py_strip s = [] \<or> last (py_strip s) \<notin> set ?ws"
    using py_rstrip_decomp [of "py_lstrip ?ws s" ?ws] by (auto simp add: py_strip_def)
  have "py_strip s = [] \<or> (hd (py_strip s) \<notin> set ?ws \<and> last (py_strip s) \<notin> set ?ws)"
  proof (cases "py_strip s = []")
    case True
    then show ?thesis by simp
  next
    case False
    then have "hd (py_lstrip ?ws s) = hd (py_strip s)" using b(1) by simp
    moreover have "py_lstrip ?ws s \<noteq> []" using b(1) False by simp
    ultimately show ?thesis using hd lst False by auto
  qed
  moreover have "s = a @ py_strip s @ b" using a(1) b(1) by simp
  ultimately show ?thesis using a(2) b(2) by blast
qed

lemma lstrip_newline_decomp:
  "\<exists>k. s = replicate k CHR ''\<newline>'' @ py_lstrip ''\<newline>'' s
       \<and> (py_lstrip ''\<newline>'' s = [] \<or> hd (py_lstrip ''\<newline>'' s) \<noteq> CHR ''\<newline>'')"
proof -
  obtain t where t: "s = t @ py_lstrip ''\<newline>'' s" "set t \<subseteq> set ''\<newline>''"
    and hd: "py_lstrip ''\<newline>'' s = [] \<or> hd (py_lstrip ''\<newline>'' s) \<notin> set ''\<newline>''"
    using py_lstrip_decomp [of s "''\<newline>''"] by blast
  have "t = replicate (length t) CHR ''\<newline>''"
    using t(2) by (intro replicate_eqI) auto
  then have "s = replicate (length t) CHR ''\<newline>'' @ py_lstrip ''\<newline>'' s"
    using t(1) by simp
  then show ?thesis using hd by auto
qed

lemma create_item_calls:
  "kw_inputs (generation_kwargs st) = None \<Longrightarrow>
   generate_calls (snd (create_item m req st))
   = generate_calls st
     @ [(generation_kwargs (resolve_parameters req st))\<lparr>kw_inputs :=
          Some (py_strip (get_prompt (py_lstrip ''\<newline>'' (prompt req)) (history req)),
                Some (dict_get (max_input_length req) 512))\<rparr>]"
  by (simp add: create_item_def Let_def resolve_parameters_fields split: option.splits)

text \<open>
  Claim C7, as amended. On \<open>/chat\<close> the text passed to prompt rendering is the raw
  query with its leading newlines removed, and nothing is removed at its end. On the
  non-streaming \<open>/v1/chat/completions\<close> it is the query (with the system message's
  content in front, if any) with all leading and trailing whitespace removed, newlines
  among it. In both cases the model is called on the prompt rendered from that text.
\<close>

theorem query_stripping:
  "(kw_inputs (generation_kwargs st) = None \<longrightarrow>
      (\<exists>k text. prompt req = replicate k CHR ''\<newline>'' @ text
         \<and> (text = [] \<or> hd text \<noteq> CHR ''\<newline>'')
         \<and> generate_calls (snd (create_item m req st))
           = generate_calls st
             @ [(generation_kwargs (resolve_parameters req st))\<lparr>kw_inputs :=
                  Some (py_strip (get_prompt text (history req)),
                        Some (dict_get (max_input_length req) 512))\<rparr>]))
   \<and> (messages request \<noteq> [] \<and> role (last (messages request)) = User
        \<and> stream request \<noteq> Some True \<longrightarrow>
      (\<exists>a text b. fst (query_and_history (messages request)) = a @ text @ b
         \<and> set a \<subseteq> set py_whitespace \<and> set b \<subseteq> set py_whitespace
         \<and> (text = [] \<or> (hd text \<notin> set py_whitespace \<and> last text \<notin> set py_whitespace))
         \<and> generate_calls (snd (create_chat_completion m request st))
           = generate_calls st
             @ [(generation_kwargs st)\<lparr>kw_inputs :=
                  Some (get_prompt text (Some (snd (query_and_history (messages request)))),
                        None)\<rparr>]))"
proof (intro conjI impI)
  assume "kw_inputs (generation_kwargs st) = None"
  then show "\<exists>k text. prompt req = replicate k CHR ''\<newline>'' @ text
         \<and> (text = [] \<or> hd text \<noteq> CHR ''\<newline>'')
         \<and> generate_calls (snd (create_item m req st))
           = generate_calls st
             @ [(generation_kwargs (resolve_parameters req st))\<lparr>kw_inputs :=
                  Some (py_strip (get_prompt text (history req)),
                        Some (dict_get (max_input_length req) 512))\<rparr>]"
    using lstrip_newline_decomp [of "prompt req"] create_item_calls [of st m req] by blast
next
  assume a: "messages request \<noteq> [] \<and> role (last (messages request)) = User
        \<and> stream request \<noteq> Some True"
  obtain q h where qh: "query_and_history (messages request) = (q, h)"
    by (cases "query_and_history (messages request)")
  have "generate_calls (snd (create_chat_completion m request st))
         = generate_calls st
           @ [(generation_kwargs st)\<lparr>kw_inputs :=
                 Some (get_prompt (py_strip q) (Some h), None)\<rparr>]"
    using create_chat_completion_calls [of request q h m st] a qh
    by (simp add: py_strip_after_lstrip_newline)
  then show "\<exists>a text b. fst (query_and_history (messages request)) = a @ text @ b
         \<and> set a \<subseteq> set py_whitespace \<and> set b \<subseteq> set py_whitespace
         \<and> (text = [] \<or> (hd text \<notin> set py_whitespace \<and> last text \<notin> set py_whitespace))
         \<and> generate_calls (snd (create_chat_completion m request st))
           = generate_calls st
             @ [(generation_kwargs st)\<lparr>kw_inputs :=
                  Some (get_prompt text (Some (snd (query_and_history (messages request)))),
                        None)\<rparr>]"
    using py_strip_decomp [of q] qh by auto
qed

theorem query_stripping_witness:
  "generate_calls (snd (create_item example_llm
       (example_chat_request\<lparr>prompt := ''\<newline>\<newline>hi\<newline>''\<rparr>) example_state))
     = [(generation_kwargs example_state)\<lparr>kw_inputs :=
          Some (py_strip (get_prompt ''hi\<newline>'' (Some [])), Some 512)\<rparr>]
   \<and> generate_calls (snd (create_chat_completion example_llm
       (example_completion_request\<lparr>messages := [\<lparr>role = User, content = ''\<newline> hi \<newline>''\<rparr>]\<rparr>)
       example_state))
     = [(generation_kwargs example_state)\<lparr>kw_inputs :=
          Some (get_prompt ''hi'' (Some []), None)\<rparr>]"
  using query_stripping
    [of example_state "example_chat_request\<lparr>prompt := ''\<newline>\<newline>hi\<newline>''\<rparr>" example_llm
        "example_completion_request\<lparr>messages := [\<lparr>role = User, content = ''\<newline> hi \<newline>''\<rparr>]\<rparr>"]
  by (simp add: create_item_def create_chat_completion_def resolve_parameters_def
      query_and_history_def fold_history_def range_step2_def
      example_chat_request_def example_completion_request_def example_state_def dict_get_def
      py_strip_def py_lstrip_def py_rstrip_def py_whitespace_def Let_def)

text \<open>
  Claim C7 as stated fails: on \<open>/chat\<close> a trailing newline of the query stays in the
  text that is rendered, and on \<open>/stream_chat\<close> a leading newline stays as well, so in
  both cases the prompt differs from the one rendered from the query with its
  surrounding newlines removed.
\<close>

theorem trailing_newline_kept:
  "generate_calls (snd (create_item example_llm
       (example_chat_request\<lparr>prompt := ''hi\<newline>''\<rparr>) example_state))
     = [(generation_kwargs example_state)\<lparr>kw_inputs :=
          Some (py_strip (get_prompt ''hi\<newline>'' (Some [])), Some 512)\<rparr>]
   \<and> strip_newlines ''hi\<newline>'' = ''hi''
   \<and> py_strip (get_prompt ''hi\<newline>'' (Some [])) \<noteq> py_strip (get_prompt ''hi'' (Some []))
   \<and> generate_calls (snd (stream_chat example_llm (\<lambda>k. False)
       (example_chat_request\<lparr>prompt := ''\<newline>hi''\<rparr>) example_state))
     = [(generation_kwargs example_state)\<lparr>kw_inputs :=
          Some (get_prompt ''\<newline>hi'' (Some []), Some 512), kw_streamer := True\<rparr>]
   \<and> strip_newlines ''\<newline>hi'' = ''hi''
   \<and> get_prompt ''\<newline>hi'' (Some []) \<noteq> get_prompt ''hi'' (Some [])"
  by (simp add: create_item_def stream_chat_def event_generator_state resolve_parameters_def
      strip_newlines_def
      example_chat_request_def example_state_def dict_get_def get_prompt_def
      py_strip_def py_lstrip_def py_rstrip_def py_whitespace_def Let_def)

section \<open>The finish reason\<close>

lemma predict_items:
  "\<exists>chunks. fst (predict m q h model_id st)
       = chunks @ [stream_chunk model_id \<lparr>delta_role = None, delta_content = None\<rparr> (Some Stop), Done]
     \<and> (\<forall>it \<in> set chunks. \<exists>d. it = stream_chunk model_id d None)"
proof -
  let ?call = "(generation_kwargs st)\<lparr>kw_inputs := Some (get_prompt q (Some h), None),
                                      kw_streamer := True\<rparr>"
  let ?chunks = "stream_chunk model_id \<lparr>delta_role = Some Assistant, delta_content = None\<rparr> None
      # map (\<lambda>new_text. stream_chunk model_id \<lparr>delta_role = None, delta_content = Some new_text\<rparr> None)
          (filter (\<lambda>new_text. length new_text \<noteq> 0) (stream_text m ?call))"
  have "fst (predict m q h model_id st)
       = ?chunks @ [stream_chunk model_id \<lparr>delta_role = None, delta_content = None\<rparr> (Some Stop), Done]"
    by (simp add: predict_def Let_def)
  moreover have "\<forall>it \<in> set ?chunks. \<exists>d. it = stream_chunk model_id d None"
    by auto
  ultimately show ?thesis by blast
qed

lemma create_chat_completion_stream:
  "fst (create_chat_completion m request st) = Inr (EventSource items) \<Longrightarrow>
   items = fst (predict m (fst (query_and_history (messages request)))
                  (snd (query_and_history (messages request))) (model request) st)"
  by (auto simp add: create_chat_completion_def Let_def split: if_splits prod.splits)

lemma example_completion_stream:
  "fst (create_chat_completion example_llm (example_completion_request\<lparr>stream := Some True\<rparr>)
          example_state)
   = Inr (EventSource
       [stream_chunk ''x'' \<lparr>delta_role = Some Assistant, delta_content = None\<rparr> None,
        stream_chunk ''x'' \<lparr>delta_role = None, delta_content = Some ''a''\<rparr> None,
        stream_chunk ''x'' \<lparr>delta_role = None, delta_content = Some ''b''\<rparr> None,
        stream_chunk ''x'' \<lparr>delta_role = None, delta_content = Some ''c''\<rparr> None,
        stream_chunk ''x'' \<lparr>delta_role = None, delta_content = None\<rparr> (Some Stop),
        Done])"
  by (simp add: create_chat_completion_def query_and_history_def fold_history_def range_step2_def
      predict_def example_llm_def example_completion_request_def Let_def)

text \<open>
  Claim C3, as amended. The finish reason of every completed generation on
  \<open>/v1/chat/completions\<close> is \<open>stop\<close>, whatever made the model stop: the
  non-streaming response has one choice, with finish reason \<open>stop\<close>; the stream ends
  with a chunk with finish reason \<open>stop\<close> followed by the termination marker, and every
  chunk before it has no finish reason. The finish reason \<open>length\<close> is never reported.
\<close>

theorem finish_reason_always_stop:
  "(fst (create_chat_completion m request st) = Inr (Completion c) \<longrightarrow>
      (\<exists>cd. choices c = [Choice cd] \<and> finish_reason cd = Stop))
   \<and> (fst (create_chat_completion m request st) = Inr (EventSource items) \<longrightarrow>
      (\<exists>chunks. items = chunks @ [stream_chunk (model request)
                                     \<lparr>delta_role = None, delta_content = None\<rparr> (Some Stop), Done]
          \<and> (\<forall>it \<in> set chunks. \<exists>d. it = stream_chunk (model request) d None)))"
proof (intro conjI impI)
  assume "fst (create_chat_completion m request st) = Inr (Completion c)"
  then have "choices c = [Choice \<lparr>index = 0,
                  message = \<lparr>role = Assistant,
                             content = postprocess (decode_response m
                               (generate m (last (generate_calls
                                  (snd (create_chat_completion m request st))))))\<rparr>,
                  finish_reason = Stop\<rparr>]"
    by (rule create_chat_completion_response)
  then show "\<exists>cd. choices c = [Choice cd] \<and> finish_reason cd = Stop" by simp
next
  assume "fst (create_chat_completion m request st) = Inr (EventSource items)"
  then have "items = fst (predict m (fst (query_and_history (messages request)))
                  (snd (query_and_history (messages request))) (model request) st)"
    by (rule create_chat_completion_stream)
  then show "\<exists>chunks. items = chunks @ [stream_chunk (model request)
                                     \<lparr>delta_role = None, delta_content = None\<rparr> (Some Stop), Done]
          \<and> (\<forall>it \<in> set chunks. \<exists>d. it = stream_chunk (model request) d None)"
    using predict_items by simp
qed

theorem finish_reason_always_stop_witness:
  "fst (create_chat_completion example_llm example_completion_request example_state)
     = Inr (Completion \<lparr>response_model = ''x'',
             choices = [Choice \<lparr>index = 0,
                          message = \<lparr>role = Assistant, content = ''The door is wide-''\<rparr>,
                          finish_reason = Stop\<rparr>],
             object = ''chat.completion''\<rparr>)
   \<and> fst (create_chat_completion example_llm (example_completion_request\<lparr>stream := Some True\<rparr>)
          example_state)
     = Inr (EventSource
       [stream_chunk ''x'' \<lparr>delta_role = Some Assistant, delta_content = None\<rparr> None,
        stream_chunk ''x'' \<lparr>delta_role = None, delta_content = Some ''a''\<rparr> None,
        stream_chunk ''x'' \<lparr>delta_role = None, delta_content = Some ''b''\<rparr> None,
        stream_chunk ''x'' \<lparr>delta_role = None, delta_content = Some ''c''\<rparr> None,
        stream_chunk ''x'' \<lparr>delta_role = None, delta_content = None\<rparr> (Some Stop),
        Done])"
  using finish_reason_always_stop
    [of example_llm example_completion_request example_state
        "\<lparr>response_model = ''x'',
             choices = [Choice \<lparr>index = 0,
                          message = \<lparr>role = Assistant, content = ''The door is wide-''\<rparr>,
                          finish_reason = Stop\<rparr>],
             object = ''chat.completion''\<rparr>"]
    finish_reason_always_stop
    [of example_llm "example_completion_request\<lparr>stream := Some True\<rparr>" example_state _
        "[stream_chunk ''x'' \<lparr>delta_role = Some Assistant, delta_content = None\<rparr> None,
          stream_chunk ''x'' \<lparr>delta_role = None, delta_content = Some ''a''\<rparr> None,
          stream_chunk ''x'' \<lparr>delta_role = None, delta_content = Some ''b''\<rparr> None,
          stream_chunk ''x'' \<lparr>delta_role = None, delta_content = Some ''c''\<rparr> None,
          stream_chunk ''x'' \<lparr>delta_role = None, delta_content = None\<rparr> (Some Stop),
          Done]"]
  by (simp add: example_completion example_completion_stream)

text \<open>
  Claim C3 as stated fails: a generation that ends at the length bound, here after two
  tokens neither of which is the end-of-sequence token, is reported with finish reason
  \<open>stop\<close>, not \<open>length\<close>.
\<close>

theorem length_bound_reports_stop:
  "fst (create_chat_completion example_llm example_completion_request
          (example_state\<lparr>generation_kwargs :=
              (generation_kwargs example_state)\<lparr>max_length := Some 2\<rparr>\<rparr>))
     = Inr (Completion \<lparr>response_model = ''x'',
             choices = [Choice \<lparr>index = 0,
                          message = \<lparr>role = Assistant, content = ''The door is wide-''\<rparr>,
                          finish_reason = Stop\<rparr>],
             object = ''chat.completion''\<rparr>)
   \<and> generate example_llm (last (generate_calls (snd
         (create_chat_completion example_llm example_completion_request
            (example_state\<lparr>generation_kwargs :=
                (generation_kwargs example_state)\<lparr>max_length := Some 2\<rparr>\<rparr>)))))
     = [5, 6]
   \<and> eos_token_id example_llm \<notin> set [5, 6]
   \<and> Stop \<noteq> Length"
  by (simp add: create_chat_completion_def query_and_history_def fold_history_def range_step2_def
      example_llm_def example_completion_request_def
      example_state_def get_prompt_def py_strip_def py_lstrip_def py_rstrip_def
      py_whitespace_def postprocess_def decode_response_def Let_def)

section \<open>Sampling parameters on \<open>/v1/chat/completions\<close>\<close>

lemma sampling_fields_ignored:
  "create_chat_completion m
     (request\<lparr>req_temperature := t, req_top_p := p, req_max_length := l\<rparr>) st
   = create_chat_completion m request st"
  by (simp add: create_chat_completion_def Let_def split_beta)

text \<open>
  Claim C4 at a request the code does not treat as the claim says. A request to
  \<open>/v1/chat/completions\<close> with temperature 0.1, top_p 0.5 and max_length 64, in a
  process whose defaults are 0.8, 0.95 and 1024, calls the model with the defaults and
  leaves them as they were; the same values sent to \<open>/chat\<close> are the ones the model is
  called with.
\<close>

theorem completion_ignores_request_parameters:
  "generate_calls (snd (create_chat_completion example_llm
      (example_completion_request\<lparr>req_temperature := Some 0.1, req_top_p := Some 0.5,
                                    req_max_length := Some 64\<rparr>) example_state))
     = [\<lparr>max_length = Some 1024, top_p = Some 0.95, temperature = Some 0.8,
         kw_inputs = Some (get_prompt ''Hi'' (Some []), None), kw_streamer = False\<rparr>]
   \<and> generation_kwargs (snd (create_chat_completion example_llm
      (example_completion_request\<lparr>req_temperature := Some 0.1, req_top_p := Some 0.5,
                                    req_max_length := Some 64\<rparr>) example_state))
     = \<lparr>max_length = Some 1024, top_p = Some 0.95, temperature = Some 0.8,
         kw_inputs = Some (get_prompt ''Hi'' (Some []), None), kw_streamer = False\<rparr>
   \<and> generate_calls (snd (create_item example_llm
      (example_chat_request\<lparr>post_temperature := Some 0.1, post_top_p := Some 0.5,
                              max_generate_length := Some 64\<rparr>) example_state))
     = [\<lparr>max_length = Some 64, top_p = Some 0.5, temperature = Some 0.1,
         kw_inputs = Some (py_strip (get_prompt ''Hello'' (Some [])), Some 512),
         kw_streamer = False\<rparr>]"
  by (simp add: create_item_def create_chat_completion_def resolve_parameters_def
      query_and_history_def fold_history_def range_step2_def
      example_chat_request_def example_completion_request_def example_state_def dict_get_def
      py_strip_def py_lstrip_def py_rstrip_def py_whitespace_def Let_def get_prompt_def)

section \<open>Disconnection during \<open>/stream_chat\<close>\<close>

text \<open>
  Whatever the polls of \<open>request.is_disconnected()\<close> answer, the loop of
  \<open>event_generator\<close> ends with \<open>new_text\<close> bound once the streamer has yielded a
  fragment, and the generator then yields the \<open>finish\<close> event as its last event.
\<close>

lemma event_loop_exit:
  "event_loop disc p (Some h) frags k lm nt = (evs, r) \<Longrightarrow> frags \<noteq> [] \<or> nt \<noteq> None \<Longrightarrow>
   \<exists>lm' t. r = Inr (lm', Some t)"
proof (induction frags arbitrary: k lm nt evs r)
  case Nil
  then show ?case by auto
next
  case (Cons t ts)
  show ?case
  proof (cases "disc k")
    case True
    with Cons.prems show ?thesis by auto
  next
    case False
    obtain evs' r' where rec: "event_loop disc p (Some h) ts (Suc k) (lm @ t) (Some t) = (evs', r')"
      by (cases "event_loop disc p (Some h) ts (Suc k) (lm @ t) (Some t)")
    with False Cons.prems have "r = r'" by (simp add: Let_def)
    moreover have "\<exists>lm' t'. r' = Inr (lm', Some t')"
      using Cons.IH [OF rec] by simp
    ultimately show ?thesis by simp
  qed
qed

lemma finish_event_always_last:
  assumes "history req = Some h"
    and "stream_text m ((generation_kwargs st)\<lparr>kw_inputs :=
           Some (get_prompt (prompt req) (history req), Some (dict_get (max_input_length req) 512)),
           kw_streamer := True\<rparr>) \<noteq> []"
  shows "\<exists>evs lm t. fst (event_generator m disc req st)
     = (evs @ [\<lparr>event = ''finish'', event_id = ''finish_id'', retry = 15000,
                data_response = t, data_history = h @ [(prompt req, lm)],
                data_finish = True\<rparr>], None)"
proof -
  let ?call = "(generation_kwargs st)\<lparr>kw_inputs :=
           Some (get_prompt (prompt req) (history req), Some (dict_get (max_input_length req) 512)),
           kw_streamer := True\<rparr>"
  obtain evs r where loop: "event_loop disc (prompt req) (Some h) (stream_text m ?call) 0 [] None = (evs, r)"
    by (cases "event_loop disc (prompt req) (Some h) (stream_text m ?call) 0 [] None")
  then obtain lm t where r: "r = Inr (lm, Some t)"
    using event_loop_exit [OF loop] assms(2) by blast
  show ?thesis
    using loop r assms(1) by (simp add: event_generator_def Let_def)
qed

text \<open>
  Claim C8 at a session where the code does not do what the claim says. The streamer
  yields three fragments and the client is found disconnected at the second poll, after
  one \<open>new_message\<close> event: the loop is left, and the \<open>finish\<close> event after the loop
  is yielded all the same, carrying the fragment that was being handled.
\<close>

theorem finish_event_after_disconnect:
  "fst (stream_chat example_llm (\<lambda>k. 1 \<le> k) example_chat_request example_state)
   = ([\<lparr>event = ''new_message'', event_id = ''message_id'', retry = 15000,
         data_response = ''a'', data_history = [(''Hello'', '''')], data_finish = False\<rparr>,
       \<lparr>event = ''finish'', event_id = ''finish_id'', retry = 15000,
         data_response = ''b'', data_history = [(''Hello'', ''a'')], data_finish = True\<rparr>],
      None)"
  by (simp add: stream_chat_def event_generator_def resolve_parameters_def
      example_llm_def example_chat_request_def example_state_def Let_def)

end
